theory Spec2Isabelle
  imports Main "HOL-Library.Char_ord" "HOL-Library.List_Lexorder"
begin

section \<open>Plan details screen: the derived values of a workout plan\<close>

text \<open>
  The embedding follows \<^verbatim>\<open>src/app/plan-details/[id].tsx\<close>. The four accessors
  \<^verbatim>\<open>getTemplateName\<close>, \<^verbatim>\<open>getPlanStatus\<close>, \<^verbatim>\<open>getDuration\<close> and
  \<^verbatim>\<open>getWorkoutsPerWeek\<close> are closures of the component \<^verbatim>\<open>PlanDetailsScreen\<close>:
  they take no plan argument but read the component's \<^verbatim>\<open>plan\<close>, \<^verbatim>\<open>templates\<close> and
  \<^verbatim>\<open>colors\<close>, and \<^verbatim>\<open>getPlanStatus\<close> reads the system clock. Everything they read is
  made explicit in the record \<open>Screen\<close>, which every accessor takes as its first argument.

  JavaScript strings are modelled as \<open>string\<close>; \<open><\<close> on them is the lexicographic order
  of the character codes (a proper prefix is smaller), which is how JavaScript compares
  two strings.
\<close>

subsection \<open>Data model\<close>

datatype DayOfWeek = Monday | Tuesday | Wednesday | Thursday | Friday | Saturday | Sunday

definition daysOfWeek :: "DayOfWeek list" where
  "daysOfWeek = [Monday, Tuesday, Wednesday, Thursday, Friday, Saturday, Sunday]"

text \<open>
  Modelled from the spec: the type declarations \<^verbatim>\<open>WorkoutPlan\<close> and \<^verbatim>\<open>DayOfWeek\<close> of
  \<^verbatim>\<open>@/types/workout\<close> are not part of the sources. The fields are those the screen
  assigns in \<^verbatim>\<open>loadPlanDetails\<close>; the dates are calendar-date strings and the schedule
  maps weekday labels to an optional template identifier, \<open>Some None\<close> being a slot that
  holds \<^verbatim>\<open>null\<close> and \<open>None\<close> a weekday the object has no property for.
\<close>

record WorkoutPlan =
  plan_id :: string
  clientId :: string
  trainerId :: string
  plan_name :: string
  startDate :: string
  endDate :: string
  schedule :: "DayOfWeek \<rightharpoonup> string option"
  createdAt :: string
  updatedAt :: string

text \<open>
  Modelled from the spec: a template record has an identifier and a display name (the
  screen holds the templates as \<^verbatim>\<open>any[]\<close>).
\<close>

record Template =
  template_id :: string
  template_name :: string

text \<open>The entries of the colour palette that the accessors read.\<close>

record Colors =
  textSecondary :: string
  success :: string
  warning :: string
  primary :: string

text \<open>
  What the closures read: the component state \<open>plan\<close> and \<open>templates\<close>, the palette
  \<open>colors\<close>, and the system clock, given as \<open>nowISO\<close>, the string that
  \<^verbatim>\<open>new Date().toISOString()\<close> returns at the moment of the call.
\<close>

record Screen =
  plan :: "WorkoutPlan option"
  templates :: "Template list"
  colors :: Colors
  nowISO :: string

record PlanStatus =
  status :: string
  color :: string

subsection \<open>JavaScript primitives used by the accessors\<close>

text \<open>\<^verbatim>\<open>!s\<close> on a string: only the empty string is falsy.\<close>

definition falsy :: "string \<Rightarrow> bool" where
  "falsy s \<longleftrightarrow> s = []"

text \<open>\<^verbatim>\<open>Boolean(v)\<close> on a schedule slot: \<^verbatim>\<open>null\<close> and the empty string are falsy.\<close>

definition Boolean :: "string option \<Rightarrow> bool" where
  "Boolean v = (case v of None \<Rightarrow> False | Some s \<Rightarrow> \<not> falsy s)"

text \<open>\<^verbatim>\<open>Object.values(obj)\<close>: the values of the properties the object has.\<close>

definition Object_values :: "(DayOfWeek \<rightharpoonup> string option) \<Rightarrow> string option list" where
  "Object_values obj = List.map_filter obj daysOfWeek"

text \<open>\<^verbatim>\<open>s.split(sep)[0]\<close>: the part of \<open>s\<close> before the first separator, all of \<open>s\<close> if there is none.\<close>

definition split0 :: "char \<Rightarrow> string \<Rightarrow> string" where
  "split0 sep s = takeWhile (\<lambda>c. c \<noteq> sep) s"

text \<open>
  The Number values that \<^verbatim>\<open>getDuration\<close> computes with are \<^verbatim>\<open>NaN\<close> and integers
  (time values in milliseconds, counts of days, weeks and months); every integer that
  arises from four-digit years is far below \<open>2 ^ 53\<close>, so the arithmetic is exact.
  A comparison with \<^verbatim>\<open>NaN\<close> is false, and arithmetic on \<^verbatim>\<open>NaN\<close> gives \<^verbatim>\<open>NaN\<close>.
\<close>

datatype number = NaN | Num int

fun num_minus :: "number \<Rightarrow> number \<Rightarrow> number" where
  "num_minus (Num a) (Num b) = Num (a - b)"
| "num_minus _ _ = NaN"

fun Math_abs :: "number \<Rightarrow> number" where
  "Math_abs (Num a) = Num \<bar>a\<bar>"
| "Math_abs NaN = NaN"

text \<open>\<^verbatim>\<open>Math.ceil(x / d)\<close> and \<^verbatim>\<open>Math.floor(x / d)\<close> for a positive integer constant \<open>d\<close>.\<close>

fun Math_ceil_div :: "number \<Rightarrow> int \<Rightarrow> number" where
  "Math_ceil_div (Num a) d = Num (- ((- a) div d))"
| "Math_ceil_div NaN d = NaN"

fun Math_floor_div :: "number \<Rightarrow> int \<Rightarrow> number" where
  "Math_floor_div (Num a) d = Num (a div d)"
| "Math_floor_div NaN d = NaN"

fun num_less :: "number \<Rightarrow> number \<Rightarrow> bool" where
  "num_less (Num a) (Num b) \<longleftrightarrow> a < b"
| "num_less _ _ \<longleftrightarrow> False"

text \<open>The decimal digits of a natural number, and \<^verbatim>\<open>String(x)\<close> as a template literal inserts it.\<close>

fun decimal :: "nat \<Rightarrow> string" where
  "decimal n = (if n < 10 then [char_of (48 + n)]
                else decimal (n div 10) @ [char_of (48 + n mod 10)])"

declare decimal.simps [simp del]

fun num_toString :: "number \<Rightarrow> string" where
  "num_toString NaN = ''NaN''"
| "num_toString (Num a) = (if a < 0 then CHR ''-'' # decimal (nat (- a)) else decimal (nat a))"

subsection \<open>Parsing a calendar date\<close>

text \<open>
  \<^verbatim>\<open>new Date(s).getTime()\<close> for the date-only form \<^verbatim>\<open>YYYY-MM-DD\<close> of the ECMAScript
  date-time string format, which is read as midnight UTC: the time value is the day
  number since 1970-01-01 times the milliseconds of a day. \<open>DayFromYear\<close> is the
  function of that name of the ECMAScript specification. A string of that form which
  names no day of the calendar gives an invalid date, whose time value is \<^verbatim>\<open>NaN\<close>.
  Strings in other forms are outside this embedding and are given \<^verbatim>\<open>NaN\<close> as well.
\<close>

definition digitVal :: "char \<Rightarrow> nat option" where
  "digitVal c = (let k = (of_char c :: nat) in if 48 \<le> k \<and> k \<le> 57 then Some (k - 48) else None)"

fun digitsVal :: "nat \<Rightarrow> string \<Rightarrow> nat option" where
  "digitsVal acc [] = Some acc"
| "digitsVal acc (c # cs) =
     (case digitVal c of None \<Rightarrow> None | Some k \<Rightarrow> digitsVal (10 * acc + k) cs)"

definition DayFromYear :: "int \<Rightarrow> int" where
  "DayFromYear y = 365 * (y - 1970) + (y - 1969) div 4 - (y - 1901) div 100 + (y - 1601) div 400"

definition leapYear :: "int \<Rightarrow> bool" where
  "leapYear y \<longleftrightarrow> (y mod 4 = 0 \<and> y mod 100 \<noteq> 0) \<or> y mod 400 = 0"

definition daysInMonth :: "int \<Rightarrow> nat \<Rightarrow> int" where
  "daysInMonth y m =
     (if m = 2 then (if leapYear y then 29 else 28)
      else if m = 4 \<or> m = 6 \<or> m = 9 \<or> m = 11 then 30 else 31)"

definition MakeDay :: "int \<Rightarrow> nat \<Rightarrow> int \<Rightarrow> int" where
  "MakeDay y m d = DayFromYear y + (\<Sum>k \<leftarrow> [1..<m]. daysInMonth y k) + (d - 1)"

definition msPerDay :: int where
  "msPerDay = 1000 * 60 * 60 * 24"

definition Date_getTime :: "string \<Rightarrow> number" where
  "Date_getTime s =
     (if length s = 10 \<and> s ! 4 = CHR ''-'' \<and> s ! 7 = CHR ''-'' then
        (case (digitsVal 0 (take 4 s), digitsVal 0 (take 2 (drop 5 s)), digitsVal 0 (drop 8 s)) of
           (Some y, Some m, Some d) \<Rightarrow>
             if 1 \<le> m \<and> m \<le> 12 \<and> 1 \<le> d \<and> int d \<le> daysInMonth (int y) m
             then Num (MakeDay (int y) m (int d) * msPerDay)
             else NaN
         | _ \<Rightarrow> NaN)
      else NaN)"

subsection \<open>The accessors\<close>

definition getTemplateName :: "Screen \<Rightarrow> string option \<Rightarrow> string" where
  "getTemplateName scr templateId =
     (case templateId of
        None \<Rightarrow> ''Rest Day''
      | Some tid \<Rightarrow>
          if falsy tid then ''Rest Day''
          else (case find (\<lambda>t. template_id t = tid) (templates scr) of
                  None \<Rightarrow> ''Unknown Template''
                | Some t \<Rightarrow>
                    if falsy (template_name t) then ''Unknown Template'' else template_name t))"

definition today :: "Screen \<Rightarrow> string" where
  "today scr = split0 CHR ''T'' (nowISO scr)"

definition getPlanStatus :: "Screen \<Rightarrow> PlanStatus" where
  "getPlanStatus scr =
     (case plan scr of
        None \<Rightarrow> \<lparr>status = ''Unknown'', color = textSecondary (colors scr)\<rparr>
      | Some p \<Rightarrow>
          if endDate p < today scr then \<lparr>status = ''Completed'', color = success (colors scr)\<rparr>
          else if startDate p > today scr then \<lparr>status = ''Upcoming'', color = warning (colors scr)\<rparr>
          else \<lparr>status = ''Active'', color = primary (colors scr)\<rparr>)"

definition getDuration :: "Screen \<Rightarrow> string" where
  "getDuration scr =
     (case plan scr of
        None \<Rightarrow> ''''
      | Some p \<Rightarrow>
          (let start = Date_getTime (startDate p);
               end' = Date_getTime (endDate p);
               diffTime = Math_abs (num_minus end' start);
               diffDays = Math_ceil_div diffTime (1000 * 60 * 60 * 24)
           in if num_less diffDays (Num 7) then num_toString diffDays @ '' days''
              else if num_less diffDays (Num 30) then
                (let weeks = Math_floor_div diffDays 7
                 in num_toString weeks @ '' week'' @ (if num_less (Num 1) weeks then ''s'' else ''''))
              else
                (let months = Math_floor_div diffDays 30
                 in num_toString months @ '' month'' @ (if num_less (Num 1) months then ''s'' else ''''))))"

definition getWorkoutsPerWeek :: "Screen \<Rightarrow> nat" where
  "getWorkoutsPerWeek scr =
     (case plan scr of
        None \<Rightarrow> 0
      | Some p \<Rightarrow> length (filter Boolean (Object_values (schedule p))))"

subsection \<open>Concrete plans and screens\<close>

text \<open>The inputs at which the accessors are evaluated below.\<close>

definition planOf :: "string \<Rightarrow> string \<Rightarrow> (DayOfWeek \<rightharpoonup> string option) \<Rightarrow> WorkoutPlan" where
  "planOf s e sch =
     \<lparr>plan_id = ''p1'', clientId = ''c1'', trainerId = ''tr1'', plan_name = ''Strength block'',
      startDate = s, endDate = e, schedule = sch,
      createdAt = ''2023-12-20T08:00:00.000Z'', updatedAt = ''2023-12-20T08:00:00.000Z''\<rparr>"

definition lightColors :: Colors where
  "lightColors = \<lparr>textSecondary = ''#6B7280'', success = ''#10B981'', warning = ''#F59E0B'', primary = ''#3B82F6''\<rparr>"

definition darkColors :: Colors where
  "darkColors = \<lparr>textSecondary = ''#9CA3AF'', success = ''#34D399'', warning = ''#FBBF24'', primary = ''#60A5FA''\<rparr>"

definition legDay :: Template where
  "legDay = \<lparr>template_id = ''t1'', template_name = ''Leg Day''\<rparr>"

definition pushDay :: Template where
  "pushDay = \<lparr>template_id = ''t2'', template_name = ''Push Day''\<rparr>"

definition unnamed :: Template where
  "unnamed = \<lparr>template_id = ''t3'', template_name = []\<rparr>"

definition screenOf :: "WorkoutPlan option \<Rightarrow> Template list \<Rightarrow> string \<Rightarrow> Screen" where
  "screenOf p ts now = \<lparr>plan = p, templates = ts, colors = lightColors, nowISO = now\<rparr>"

text \<open>Monday and Wednesday hold a template, every other weekday holds \<^verbatim>\<open>null\<close>.\<close>

definition monWed :: "DayOfWeek \<rightharpoonup> string option" where
  "monWed = (\<lambda>d. Some None)(Monday \<mapsto> Some ''t1'', Wednesday \<mapsto> Some ''t2'')"

definition january :: WorkoutPlan where
  "january = planOf ''2024-01-01'' ''2024-01-31'' monWed"

text \<open>
  A screen on 10 January 2024 with three templates, the same screen with the templates in
  another order, later the same day, with the dark palette, and on days before and after
  the plan; and a screen whose plan is absent.
\<close>

definition roster :: Screen where
  "roster = screenOf (Some january) [legDay, pushDay, unnamed] ''2024-01-10T09:30:00.000Z''"

definition shuffled :: Screen where
  "shuffled = screenOf (Some january) [unnamed, pushDay, legDay] ''2024-01-10T09:30:00.000Z''"

definition evening :: Screen where
  "evening = roster\<lparr>nowISO := ''2024-01-10T18:45:12.250Z''\<rparr>"

definition eveningDark :: Screen where
  "eveningDark = evening\<lparr>colors := darkColors\<rparr>"

definition december :: Screen where
  "december = roster\<lparr>nowISO := ''2023-12-25T09:30:00.000Z''\<rparr>"

definition march :: Screen where
  "march = roster\<lparr>nowISO := ''2024-03-01T09:30:00.000Z''\<rparr>"

definition noPlan :: Screen where
  "noPlan = march\<lparr>plan := None, colors := darkColors\<rparr>"

lemmas screens =
  roster_def shuffled_def evening_def eveningDark_def december_def march_def noPlan_def
  screenOf_def january_def planOf_def legDay_def pushDay_def unnamed_def

section \<open>An absent plan\<close>

text \<open>
  C5. When the plan is absent, \<^verbatim>\<open>getPlanStatus\<close> returns the status \<open>Unknown\<close>, whatever
  the clock, the palette and the templates are. The accessor has no failing branch: the
  test for the absent plan comes first and nothing else is evaluated.
\<close>

theorem getPlanStatus_absent:
  "status (getPlanStatus (scr\<lparr>plan := None\<rparr>)) = ''Unknown''"
  by (simp add: getPlanStatus_def)

text \<open>
  C10. When the plan is absent, \<^verbatim>\<open>getDuration\<close> returns the empty string and
  \<^verbatim>\<open>getWorkoutsPerWeek\<close> returns 0.
\<close>

theorem absent_plan_sentinels:
  "getDuration (scr\<lparr>plan := None\<rparr>) = [] \<and> getWorkoutsPerWeek (scr\<lparr>plan := None\<rparr>) = 0"
  by (simp add: getDuration_def getWorkoutsPerWeek_def)

section \<open>Status\<close>

text \<open>
  C1. For a present plan the status follows the order of the tests: an end date below
  today gives \<open>Completed\<close>, whatever the start date is; otherwise a start date above
  today gives \<open>Upcoming\<close>; otherwise, with today between the two dates, the status is
  \<open>Active\<close>. Today is the date part of the clock reading, and the dates are compared as
  strings.
\<close>

theorem getPlanStatus_classifies:
  assumes "plan scr = Some p"
  shows "(endDate p < today scr \<longrightarrow> status (getPlanStatus scr) = ''Completed'')
       \<and> (today scr < startDate p \<and> today scr \<le> endDate p
            \<longrightarrow> status (getPlanStatus scr) = ''Upcoming'')
       \<and> (startDate p \<le> today scr \<and> today scr \<le> endDate p
            \<longrightarrow> status (getPlanStatus scr) = ''Active'')"
  using assms by (auto simp: getPlanStatus_def)

theorem getPlanStatus_classifies_witness:
  "plan march = Some january \<and> endDate january < today march
     \<and> status (getPlanStatus march) = ''Completed''
   \<and> plan december = Some january \<and> today december < startDate january
     \<and> today december \<le> endDate january \<and> status (getPlanStatus december) = ''Upcoming''
   \<and> plan roster = Some january \<and> startDate january \<le> today roster
     \<and> today roster \<le> endDate january \<and> status (getPlanStatus roster) = ''Active''"
proof -
  have p: "plan march = Some january" "plan december = Some january" "plan roster = Some january"
    by (simp_all add: screens)
  have d: "endDate january < today march" "today december < startDate january"
    "today december \<le> endDate january" "startDate january \<le> today roster"
    "today roster \<le> endDate january"
    by (simp_all add: screens today_def split0_def)
  show ?thesis
    using p d getPlanStatus_classifies [OF p(1)] getPlanStatus_classifies [OF p(2)]
      getPlanStatus_classifies [OF p(3)]
    by simp
qed

section \<open>Duration\<close>

text \<open>
  What \<^verbatim>\<open>getDuration\<close> prints when both dates parse: with \<open>d\<close> the difference of the
  time values in days, rounded up, it is \<open>d\<close> days below 7, \<open>d div 7\<close> weeks below 30 and
  \<open>d div 30\<close> months from 30 on. The week and the month get their \<open>s\<close> when the count
  exceeds 1; the day count is always followed by \<open>days\<close>.
\<close>

lemma getDuration_format:
  assumes "plan scr = Some p"
    and "Date_getTime (startDate p) = Num a" and "Date_getTime (endDate p) = Num b"
    and "d = - ((- \<bar>b - a\<bar>) div msPerDay)"
  shows "getDuration scr =
     (if d < 7 then decimal (nat d) @ '' days''
      else if d < 30 then decimal (nat (d div 7)) @ '' week'' @ (if 1 < d div 7 then ''s'' else [])
      else decimal (nat (d div 30)) @ '' month'' @ (if 1 < d div 30 then ''s'' else []))"
proof -
  have "(- \<bar>b - a\<bar>) div msPerDay \<le> 0"
    by (rule div_nonpos_pos_le0) (simp_all add: msPerDay_def)
  then have d0: "0 \<le> d"
    by (simp add: assms(4))
  then have d1: "0 \<le> d div 7" "0 \<le> d div 30"
    by (simp_all add: pos_imp_zdiv_nonneg_iff)
  have days: "Math_ceil_div (Math_abs (num_minus (Num b) (Num a))) (1000 * 60 * 60 * 24) = Num d"
    by (simp add: assms(4) msPerDay_def)
  show ?thesis
    unfolding getDuration_def assms(1) assms(2) assms(3) Let_def option.case days
    using d0 d1 by (simp add: not_less)
qed

text \<open>
  C6. The three date pairs of the test table: two days apart gives \<open>2 days\<close>, fourteen
  days apart gives \<open>2 weeks\<close>, ninety-one days apart gives \<open>3 months\<close>.
\<close>

theorem getDuration_table:
  "getDuration (screenOf (Some (planOf ''2024-01-01'' ''2024-01-03'' monWed)) [] now) = ''2 days''
   \<and> getDuration (screenOf (Some (planOf ''2024-01-01'' ''2024-01-15'' monWed)) [] now) = ''2 weeks''
   \<and> getDuration (screenOf (Some (planOf ''2024-01-01'' ''2024-04-01'' monWed)) [] now) = ''3 months''"
  by code_simp

text \<open>
  C2. The claim has every unit word take its \<open>s\<close> exactly when the count exceeds 1, so
  that a plan of one day reads \<open>1 day\<close>. The branches for weeks and months do that, but
  the branch for days writes \<open>days\<close> after every count: a plan from 1 January to
  2 January 2024 reads \<open>1 days\<close>.
\<close>

theorem getDuration_one_day:
  "getDuration (screenOf (Some (planOf ''2024-01-01'' ''2024-01-02'' monWed)) [] now) = ''1 days''"
  by code_simp

text \<open>
  C7. Swapping the start date and the end date of the plan leaves the duration as it is:
  the difference of the time values enters through its absolute value only. No order of
  the two dates is assumed.
\<close>

theorem getDuration_symmetric:
  assumes "plan scr = Some p"
    and "plan scr' = Some (p\<lparr>startDate := endDate p, endDate := startDate p\<rparr>)"
  shows "getDuration scr' = getDuration scr"
proof -
  have "Math_abs (num_minus a b) = Math_abs (num_minus b a)" for a b
    by (cases a; cases b) (simp_all add: abs_minus_commute)
  then show ?thesis
    using assms by (simp add: getDuration_def)
qed

theorem getDuration_symmetric_witness:
  "plan (screenOf (Some (planOf ''2024-04-01'' ''2024-01-01'' monWed)) [] [])
      = Some (planOf ''2024-04-01'' ''2024-01-01'' monWed)
   \<and> plan (screenOf (Some (planOf ''2024-01-01'' ''2024-04-01'' monWed)) [] [])
      = Some ((planOf ''2024-04-01'' ''2024-01-01'' monWed)
               \<lparr>startDate := endDate (planOf ''2024-04-01'' ''2024-01-01'' monWed),
                endDate := startDate (planOf ''2024-04-01'' ''2024-01-01'' monWed)\<rparr>)
   \<and> getDuration (screenOf (Some (planOf ''2024-04-01'' ''2024-01-01'' monWed)) [] []) = ''3 months''"
proof -
  let ?p = "planOf ''2024-04-01'' ''2024-01-01'' monWed"
  have a: "plan (screenOf (Some ?p) [] []) = Some ?p"
    by (simp add: screenOf_def)
  have b: "plan (screenOf (Some (planOf ''2024-01-01'' ''2024-04-01'' monWed)) [] [])
             = Some (?p\<lparr>startDate := endDate ?p, endDate := startDate ?p\<rparr>)"
    by (simp add: screenOf_def planOf_def)
  have c: "getDuration (screenOf (Some (planOf ''2024-01-01'' ''2024-04-01'' monWed)) [] []) = ''3 months''"
    by code_simp
  show ?thesis
    using a b c getDuration_symmetric [OF a b] by simp
qed

section \<open>Workouts per week\<close>

lemma daysOfWeek_distinct: "distinct daysOfWeek"
  by (simp add: daysOfWeek_def)

lemma daysOfWeek_all: "set daysOfWeek = UNIV"
proof -
  have "d \<in> set daysOfWeek" for d
    by (cases d) (simp_all add: daysOfWeek_def)
  then show ?thesis by blast
qed

lemma Boolean_iff: "Boolean v \<longleftrightarrow> (\<exists>t. v = Some t \<and> t \<noteq> [])"
  by (cases v) (simp_all add: Boolean_def falsy_def)

lemma truthy_values_count:
  "length (filter Boolean (List.map_filter obj ds))
     = length (filter (\<lambda>d. \<exists>t. obj d = Some (Some t) \<and> t \<noteq> []) ds)"
  by (induction ds) (auto simp: List.map_filter_simps Boolean_iff split: option.splits)

text \<open>
  C4. For a present plan \<^verbatim>\<open>getWorkoutsPerWeek\<close> is the number of weekdays whose slot of
  the schedule holds a non-empty template identifier; a slot that holds \<^verbatim>\<open>null\<close> or the
  empty string, or a weekday without a slot, is not counted. On the schedule with
  Monday at \<open>t1\<close>, Wednesday at \<open>t2\<close> and \<^verbatim>\<open>null\<close> on the other days it is 2.
\<close>

theorem getWorkoutsPerWeek_counts:
  assumes "plan scr = Some p"
  shows "getWorkoutsPerWeek scr = card {d. \<exists>t. schedule p d = Some (Some t) \<and> t \<noteq> []}
         \<and> (schedule p = (\<lambda>d. Some None)(Monday \<mapsto> Some ''t1'', Wednesday \<mapsto> Some ''t2'')
              \<longrightarrow> getWorkoutsPerWeek scr = 2)"
proof -
  have "getWorkoutsPerWeek scr
          = length (filter (\<lambda>d. \<exists>t. schedule p d = Some (Some t) \<and> t \<noteq> []) daysOfWeek)"
    using assms by (simp add: getWorkoutsPerWeek_def Object_values_def truthy_values_count)
  also have "\<dots> = card ({d. \<exists>t. schedule p d = Some (Some t) \<and> t \<noteq> []} \<inter> set daysOfWeek)"
    by (rule distinct_length_filter [OF daysOfWeek_distinct])
  finally have general:
    "getWorkoutsPerWeek scr = card {d. \<exists>t. schedule p d = Some (Some t) \<and> t \<noteq> []}"
    by (simp add: daysOfWeek_all)
  have "getWorkoutsPerWeek scr = 2"
    if "schedule p = (\<lambda>d. Some None)(Monday \<mapsto> Some ''t1'', Wednesday \<mapsto> Some ''t2'')"
    using assms that
    by (simp add: getWorkoutsPerWeek_def Object_values_def daysOfWeek_def
          List.map_filter_simps Boolean_def falsy_def)
  with general show ?thesis by blast
qed

theorem getWorkoutsPerWeek_counts_witness:
  "plan roster = Some january
   \<and> schedule january = (\<lambda>d. Some None)(Monday \<mapsto> Some ''t1'', Wednesday \<mapsto> Some ''t2'')
   \<and> getWorkoutsPerWeek roster = 2
   \<and> card {d. \<exists>t. schedule january d = Some (Some t) \<and> t \<noteq> []} = 2"
proof -
  have h: "plan roster = Some january"
    by (simp add: screens)
  have s: "schedule january = (\<lambda>d. Some None)(Monday \<mapsto> Some ''t1'', Wednesday \<mapsto> Some ''t2'')"
    by (simp add: january_def planOf_def monWed_def)
  show ?thesis
    using h s getWorkoutsPerWeek_counts [OF h] by simp
qed

section \<open>Template names\<close>

lemma find_first:
  assumes "xs = pre @ t # post" and "\<forall>u\<in>set pre. \<not> P u" and "P t"
  shows "find P xs = Some t"
  using assms by (induction pre arbitrary: xs) auto

lemma find_absent:
  assumes "\<forall>u\<in>set xs. \<not> P u"
  shows "find P xs = None"
  using assms by (induction xs) auto

text \<open>With distinct keys, a lookup by key sees the set of the list only.\<close>

lemma find_by_key_set:
  assumes "distinct (map f xs)" and "set ys = set xs"
  shows "find (\<lambda>t. f t = k) ys = find (\<lambda>t. f t = k) xs"
proof (cases "find (\<lambda>t. f t = k) xs")
  case None
  then have "\<forall>u\<in>set xs. f u \<noteq> k"
    by (simp add: find_None_iff)
  with assms(2) have "\<forall>u\<in>set ys. f u \<noteq> k"
    by simp
  then have "find (\<lambda>t. f t = k) ys = None"
    by (simp add: find_None_iff)
  with None show ?thesis by simp
next
  case (Some t)
  then have t: "t \<in> set xs" "f t = k"
    by (auto simp: find_Some_iff)
  with assms(2) have "\<exists>u\<in>set ys. f u = k"
    by auto
  then obtain t' where t': "find (\<lambda>t. f t = k) ys = Some t'"
    by (cases "find (\<lambda>t. f t = k) ys") (auto simp: find_None_iff)
  then have "t' \<in> set xs" "f t' = k"
    using assms(2) by (auto simp: find_Some_iff)
  moreover from assms(1) have "inj_on f (set xs)"
    by (simp add: distinct_map)
  ultimately have "t' = t"
    using t by (auto dest: inj_onD)
  with t' Some show ?thesis by simp
qed

text \<open>
  C3, as stated, fails in two places. The claim sends every identifier other than
  \<^verbatim>\<open>null\<close> to the lookup, with \<open>Unknown Template\<close> when no template has it: the empty
  identifier is not looked up and gives \<open>Rest Day\<close>, here with no template at all. And
  the claim returns the name of the template found: a template found with an empty name
  gives \<open>Unknown Template\<close>, here for \<open>t3\<close>.
\<close>

theorem getTemplateName_counterexample:
  "getTemplateName (screenOf (Some january) [] ''2024-01-10T09:30:00.000Z'') (Some []) = ''Rest Day''
   \<and> getTemplateName (screenOf (Some january) [] ''2024-01-10T09:30:00.000Z'') (Some [])
        \<noteq> ''Unknown Template''
   \<and> unnamed \<in> set (templates roster) \<and> template_id unnamed = ''t3''
   \<and> getTemplateName roster (Some ''t3'') = ''Unknown Template''
   \<and> getTemplateName roster (Some ''t3'') \<noteq> template_name unnamed"
  by (simp add: getTemplateName_def falsy_def screens)

text \<open>
  C3, amended. \<^verbatim>\<open>getTemplateName\<close> returns \<open>Rest Day\<close> when the identifier is absent or
  empty. For a non-empty identifier it returns the name of the first template of the list
  with that identifier when that name is not empty, and \<open>Unknown Template\<close> when no
  template of the list has the identifier. When the identifiers of the list are distinct,
  a list with the same templates in any order gives the same result.
\<close>

theorem getTemplateName_lookup:
  "(templateId = None \<or> templateId = Some [] \<longrightarrow> getTemplateName scr templateId = ''Rest Day'')
   \<and> (tid \<noteq> [] \<and> templates scr = pre @ t # post \<and> (\<forall>u\<in>set pre. template_id u \<noteq> tid)
        \<and> template_id t = tid \<and> template_name t \<noteq> []
        \<longrightarrow> getTemplateName scr (Some tid) = template_name t)
   \<and> (tid \<noteq> [] \<and> (\<forall>u\<in>set (templates scr). template_id u \<noteq> tid)
        \<longrightarrow> getTemplateName scr (Some tid) = ''Unknown Template'')
   \<and> (distinct (map template_id (templates scr)) \<and> set (templates scr') = set (templates scr)
        \<longrightarrow> getTemplateName scr' templateId = getTemplateName scr templateId)"
proof (intro conjI impI)
  assume "templateId = None \<or> templateId = Some []"
  then show "getTemplateName scr templateId = ''Rest Day''"
    by (auto simp: getTemplateName_def falsy_def)
next
  assume a: "tid \<noteq> [] \<and> templates scr = pre @ t # post \<and> (\<forall>u\<in>set pre. template_id u \<noteq> tid)
        \<and> template_id t = tid \<and> template_name t \<noteq> []"
  then have "find (\<lambda>t. template_id t = tid) (templates scr) = Some t"
    by (intro find_first [where pre = pre and post = post]) auto
  with a show "getTemplateName scr (Some tid) = template_name t"
    by (simp add: getTemplateName_def falsy_def)
next
  assume a: "tid \<noteq> [] \<and> (\<forall>u\<in>set (templates scr). template_id u \<noteq> tid)"
  then have "find (\<lambda>t. template_id t = tid) (templates scr) = None"
    by (intro find_absent) auto
  with a show "getTemplateName scr (Some tid) = ''Unknown Template''"
    by (simp add: getTemplateName_def falsy_def)
next
  assume "distinct (map template_id (templates scr)) \<and> set (templates scr') = set (templates scr)"
  then have "find (\<lambda>t. template_id t = k) (templates scr')
               = find (\<lambda>t. template_id t = k) (templates scr)" for k
    by (intro find_by_key_set) auto
  then show "getTemplateName scr' templateId = getTemplateName scr templateId"
    by (cases templateId) (simp_all add: getTemplateName_def)
qed

theorem getTemplateName_lookup_witness:
  "getTemplateName roster None = ''Rest Day''
   \<and> templates roster = [legDay] @ pushDay # [unnamed]
   \<and> template_id legDay \<noteq> ''t2'' \<and> template_id pushDay = ''t2'' \<and> template_name pushDay \<noteq> []
   \<and> getTemplateName roster (Some ''t2'') = ''Push Day''
   \<and> template_id legDay \<noteq> ''missing-id'' \<and> template_id pushDay \<noteq> ''missing-id''
   \<and> template_id unnamed \<noteq> ''missing-id''
   \<and> getTemplateName roster (Some ''missing-id'') = ''Unknown Template''
   \<and> distinct (map template_id (templates roster)) \<and> set (templates shuffled) = set (templates roster)
   \<and> getTemplateName shuffled (Some ''t2'') = ''Push Day''"
proof -
  have t: "templates roster = [legDay] @ pushDay # [unnamed]"
    by (simp add: screens)
  have pre: "\<forall>u\<in>set [legDay]. template_id u \<noteq> ''t2''"
    by (simp add: screens)
  have hit: "template_id pushDay = ''t2''" "template_name pushDay \<noteq> []"
    "template_name pushDay = ''Push Day''"
    by (simp_all add: screens)
  have miss: "\<forall>u\<in>set (templates roster). template_id u \<noteq> ''missing-id''"
    by (simp add: screens)
  have perm: "distinct (map template_id (templates roster))"
    "set (templates shuffled) = set (templates roster)"
    by (auto simp: screens)
  have ids: "template_id legDay \<noteq> ''t2''" "template_id legDay \<noteq> ''missing-id''"
    "template_id pushDay \<noteq> ''missing-id''" "template_id unnamed \<noteq> ''missing-id''"
    by (simp_all add: screens)
  note found = getTemplateName_lookup [where scr = roster and scr' = shuffled
      and templateId = "Some ''t2''" and tid = "''t2''" and pre = "[legDay]" and t = pushDay
      and post = "[unnamed]"]
  note absent = getTemplateName_lookup [where scr = roster and scr' = shuffled
      and templateId = None and tid = "''missing-id''" and pre = "[legDay]" and t = pushDay
      and post = "[unnamed]"]
  show ?thesis
    using t pre hit miss perm ids found absent by simp
qed

text \<open>
  C9. Every falsy identifier is a rest day: the absent one and the empty string give
  \<open>Rest Day\<close> whatever the list of templates holds, so the empty string is never looked
  up. And when the template found for a non-empty identifier has an empty name, the
  result is \<open>Unknown Template\<close>.
\<close>

theorem getTemplateName_falsy:
  "getTemplateName scr None = ''Rest Day''
   \<and> getTemplateName scr (Some []) = ''Rest Day''
   \<and> (tid \<noteq> [] \<and> templates scr = pre @ t # post \<and> (\<forall>u\<in>set pre. template_id u \<noteq> tid)
        \<and> template_id t = tid \<and> template_name t = []
        \<longrightarrow> getTemplateName scr (Some tid) = ''Unknown Template'')"
proof (intro conjI impI)
  show "getTemplateName scr None = ''Rest Day''"
    by (simp add: getTemplateName_def)
  show "getTemplateName scr (Some []) = ''Rest Day''"
    by (simp add: getTemplateName_def falsy_def)
next
  assume a: "tid \<noteq> [] \<and> templates scr = pre @ t # post \<and> (\<forall>u\<in>set pre. template_id u \<noteq> tid)
        \<and> template_id t = tid \<and> template_name t = []"
  then have "find (\<lambda>t. template_id t = tid) (templates scr) = Some t"
    by (intro find_first [where pre = pre and post = post]) auto
  with a show "getTemplateName scr (Some tid) = ''Unknown Template''"
    by (simp add: getTemplateName_def falsy_def)
qed

theorem getTemplateName_falsy_witness:
  "templates roster = [legDay, pushDay] @ unnamed # []
   \<and> template_id legDay \<noteq> ''t3'' \<and> template_id pushDay \<noteq> ''t3''
   \<and> template_id unnamed = ''t3'' \<and> template_name unnamed = []
   \<and> getTemplateName roster (Some ''t3'') = ''Unknown Template''"
proof -
  have t: "templates roster = [legDay, pushDay] @ unnamed # []"
    by (simp add: screens)
  have pre: "\<forall>u\<in>set [legDay, pushDay]. template_id u \<noteq> ''t3''"
    by (simp add: screens)
  have ids: "template_id legDay \<noteq> ''t3''" "template_id pushDay \<noteq> ''t3''"
    "template_id unnamed = ''t3''" "template_name unnamed = []"
    by (simp_all add: screens)
  show ?thesis
    using t pre ids
      getTemplateName_falsy [where scr = roster and tid = "''t3''" and pre = "[legDay, pushDay]"
        and t = unnamed and post = "[]"]
    by simp
qed

section \<open>What the accessors read\<close>

text \<open>
  C8, as stated, fails for \<^verbatim>\<open>getPlanStatus\<close>: it reads the system clock inside the
  function, so two calls with the same plan, templates and palette return \<open>Active\<close> on
  10 January and \<open>Completed\<close> on 1 March; and its result carries a colour of the
  ambient palette, so two calls with the same plan at the same clock reading differ
  between the light and the dark palette.
\<close>

theorem accessors_clock_counterexample:
  "plan march = plan roster \<and> templates march = templates roster \<and> colors march = colors roster
     \<and> status (getPlanStatus march) \<noteq> status (getPlanStatus roster)
   \<and> plan eveningDark = plan evening \<and> templates eveningDark = templates evening
     \<and> nowISO eveningDark = nowISO evening
     \<and> getPlanStatus eveningDark \<noteq> getPlanStatus evening"
  by (simp add: getPlanStatus_def today_def split0_def screens lightColors_def darkColors_def)

text \<open>
  C8, amended. \<^verbatim>\<open>getDuration\<close> and \<^verbatim>\<open>getWorkoutsPerWeek\<close> are functions of the plan
  alone, and \<^verbatim>\<open>getTemplateName\<close> of the identifier and the list of templates alone.
  \<^verbatim>\<open>getPlanStatus\<close> reads the clock: its status is a function of the plan and of the
  date part of the clock reading, and its whole result of these and the palette.
\<close>

theorem accessors_footprint:
  "(plan scr' = plan scr \<longrightarrow>
      getDuration scr' = getDuration scr \<and> getWorkoutsPerWeek scr' = getWorkoutsPerWeek scr)
   \<and> (templates scr' = templates scr \<longrightarrow>
      getTemplateName scr' templateId = getTemplateName scr templateId)
   \<and> (plan scr' = plan scr \<and> today scr' = today scr \<longrightarrow>
      status (getPlanStatus scr') = status (getPlanStatus scr))
   \<and> (plan scr' = plan scr \<and> today scr' = today scr \<and> colors scr' = colors scr \<longrightarrow>
      getPlanStatus scr' = getPlanStatus scr)"
  by (simp add: getDuration_def getWorkoutsPerWeek_def getTemplateName_def getPlanStatus_def
        split: option.splits)

theorem accessors_footprint_witness:
  "plan eveningDark = plan roster \<and> today eveningDark = today roster
     \<and> getDuration eveningDark = getDuration roster
     \<and> getWorkoutsPerWeek eveningDark = getWorkoutsPerWeek roster
     \<and> status (getPlanStatus eveningDark) = status (getPlanStatus roster)
   \<and> templates noPlan = templates roster
     \<and> getTemplateName noPlan (Some ''t1'') = getTemplateName roster (Some ''t1'')
   \<and> plan evening = plan roster \<and> today evening = today roster \<and> colors evening = colors roster
     \<and> getPlanStatus evening = getPlanStatus roster"
proof -
  have a: "plan eveningDark = plan roster" "today eveningDark = today roster"
    by (simp_all add: screens today_def split0_def)
  have b: "templates noPlan = templates roster"
    by (simp add: screens)
  have c: "plan evening = plan roster" "today evening = today roster" "colors evening = colors roster"
    by (simp_all add: screens today_def split0_def)
  show ?thesis
    using a b c
      accessors_footprint [where scr = roster and scr' = eveningDark]
      accessors_footprint [where scr = roster and scr' = noPlan and templateId = "Some ''t1''"]
      accessors_footprint [where scr = roster and scr' = evening]
    by simp
qed

end
